theory Spec2Isabelle
  imports Complex_Main
begin

section \<open>Values, numbers and errors\<close>

text \<open>
  The module \<^verbatim>\<open>cbf/obstacles/obstacles.py\<close> computes with Python and numpy floats.
  Numbers are modelled as mathematical reals: rounding and overflow are not part of the
  model. The one place where float arithmetic leaves the reals inside these formulas is a
  division by a zero semi-axis: the numerators are \<^verbatim>\<open>numpy.float64\<close> values (they are
  products with \<^verbatim>\<open>np.cos\<close>/\<^verbatim>\<open>np.sin\<close>), so the quotient is \<^verbatim>\<open>inf\<close> or \<^verbatim>\<open>nan\<close>
  (with a numpy RuntimeWarning) and no exception is raised. That outcome is the value
  \<open>NonFinite\<close>.
\<close>

datatype number = Finite real | NonFinite

datatype error = TypeError | NameError | AttributeError | KeyError | IndexError | RuntimeError

text \<open>\<^verbatim>\<open>euclid.Vector2\<close>: only the fields \<^verbatim>\<open>x\<close> and \<^verbatim>\<open>y\<close> are read.\<close>

record Vector2 =
  x :: real
  y :: real

text \<open>
  An argument that the code tests with \<^verbatim>\<open>isinstance(p, Vector2)\<close>: either a
  \<^verbatim>\<open>Vector2\<close> or an object of any other type.
\<close>

datatype arg = Vec Vector2 | NotVec

text \<open>
  \<^verbatim>\<open>carla.BoundingBox\<close>: the code reads \<^verbatim>\<open>extent.x\<close>, \<^verbatim>\<open>extent.y\<close>,
  \<^verbatim>\<open>location.x\<close>, \<^verbatim>\<open>location.y\<close> and \<^verbatim>\<open>rotation.yaw\<close>.
\<close>

record BoundingBox =
  extent_x :: real
  extent_y :: real
  location_x :: real
  location_y :: real
  rotation_yaw :: real

section \<open>Obstacle2DBase\<close>

text \<open>
  Every method of the base class checks its argument and returns a constant.
  \<^verbatim>\<open>evaluate\<close> returns nothing (\<^verbatim>\<open>None\<close>) after the check.
\<close>

definition Obstacle2DBase_evaluate :: "arg \<Rightarrow> error + unit" where
  "Obstacle2DBase_evaluate p = (case p of NotVec \<Rightarrow> Inl TypeError | Vec q \<Rightarrow> Inr ())"

definition Obstacle2DBase_gradient :: "arg \<Rightarrow> error + number list" where
  "Obstacle2DBase_gradient p =
     (case p of NotVec \<Rightarrow> Inl TypeError | Vec q \<Rightarrow> Inr [Finite 0, Finite 0, Finite 0])"

definition Obstacle2DBase_f :: "arg \<Rightarrow> error + number" where
  "Obstacle2DBase_f p = (case p of NotVec \<Rightarrow> Inl TypeError | Vec q \<Rightarrow> Inr (Finite 0))"

definition Obstacle2DBase_dx :: "arg \<Rightarrow> error + number" where
  "Obstacle2DBase_dx p = (case p of NotVec \<Rightarrow> Inl TypeError | Vec q \<Rightarrow> Inr (Finite 0))"

definition Obstacle2DBase_dy :: "arg \<Rightarrow> error + number" where
  "Obstacle2DBase_dy p = (case p of NotVec \<Rightarrow> Inl TypeError | Vec q \<Rightarrow> Inr (Finite 0))"

definition Obstacle2DBase_dtheta :: "arg \<Rightarrow> error + number" where
  "Obstacle2DBase_dtheta p = (case p of NotVec \<Rightarrow> Inl TypeError | Vec q \<Rightarrow> Inr (Finite 0))"

section \<open>Ellipse2D\<close>

record Ellipse2D =
  center :: Vector2
  theta :: real
  a :: real
  b :: real
  buffer :: real
  BUFFER_FLAG :: bool

text \<open>
  \<^verbatim>\<open>__init__(self, a, b, center, theta, buffer)\<close>: the type check on \<^verbatim>\<open>center\<close>
  comes first; the buffer is added to both semi-axes and the flag is set.
\<close>

definition Ellipse2D_init :: "real \<Rightarrow> real \<Rightarrow> arg \<Rightarrow> real \<Rightarrow> real \<Rightarrow> error + Ellipse2D" where
  "Ellipse2D_init a0 b0 c th buf =
     (case c of
        NotVec \<Rightarrow> Inl TypeError
      | Vec v \<Rightarrow> Inr \<lparr>center = v, theta = th, a = a0 + buf, b = b0 + buf,
                       buffer = buf, BUFFER_FLAG = True\<rparr>)"

text \<open>
  \<^verbatim>\<open>applyBuffer\<close> and \<^verbatim>\<open>removeBuffer\<close> return the messages handed to
  \<^verbatim>\<open>warnings.warn\<close> during the call, and the object after the call.
\<close>

definition applyBuffer :: "Ellipse2D \<Rightarrow> string list \<times> Ellipse2D" where
  "applyBuffer e =
     (if \<not> BUFFER_FLAG e
      then ([], e\<lparr>a := a e + buffer e, b := b e + buffer e, BUFFER_FLAG := True\<rparr>)
      else ([''Warning: Buffer already applied. Call Ignored.''], e))"

definition removeBuffer :: "Ellipse2D \<Rightarrow> string list \<times> Ellipse2D" where
  "removeBuffer e =
     (if BUFFER_FLAG e
      then ([], e\<lparr>a := a e - buffer e, b := b e - buffer e, BUFFER_FLAG := False\<rparr>)
      else ([''Warning: Buffer already removed. Call Ignored.''], e))"

text \<open>
  \<^verbatim>\<open>evaluate\<close>: the base-class call is the type check; then the quadratic form.
  Both quotients have a \<^verbatim>\<open>numpy.float64\<close> numerator, so a zero \<^verbatim>\<open>a\<close> or \<^verbatim>\<open>b\<close>
  gives \<^verbatim>\<open>inf\<close> or \<^verbatim>\<open>nan\<close>, which the square, the sum and the subtraction keep
  non-finite.
\<close>

definition Ellipse2D_evaluate :: "Ellipse2D \<Rightarrow> arg \<Rightarrow> error + number" where
  "Ellipse2D_evaluate e p =
     (case p of
        NotVec \<Rightarrow> Inl TypeError
      | Vec q \<Rightarrow>
          (let dx = x q - x (center e);
               dy = y q - y (center e);
               ct = cos (theta e);
               st = sin (theta e)
           in if a e = 0 \<or> b e = 0 then Inr NonFinite
              else Inr (Finite (((dx * ct + dy * st) / a e)\<^sup>2
                                + ((- dx * st + dy * ct) / b e)\<^sup>2 - 1))))"

definition Ellipse2D_f :: "Ellipse2D \<Rightarrow> arg \<Rightarrow> error + number" where
  "Ellipse2D_f e p = Ellipse2D_evaluate e p"

definition Ellipse2D_dx :: "Ellipse2D \<Rightarrow> arg \<Rightarrow> error + number" where
  "Ellipse2D_dx e p =
     (case Obstacle2DBase_dx p of
        Inl err \<Rightarrow> Inl err
      | Inr _ \<Rightarrow>
          (case p of
             NotVec \<Rightarrow> Inl TypeError
           | Vec q \<Rightarrow>
               (let xd = x q - x (center e);
                    yd = y q - y (center e);
                    ct = cos (theta e);
                    st = sin (theta e)
                in if a e = 0 \<or> b e = 0 then Inr NonFinite
                   else Inr (Finite ((2 * ct / (a e)\<^sup>2) * (xd * ct + yd * st)
                                     + (- 2 * st / (b e)\<^sup>2) * (- xd * st + yd * ct))))))"

definition Ellipse2D_dy :: "Ellipse2D \<Rightarrow> arg \<Rightarrow> error + number" where
  "Ellipse2D_dy e p =
     (case Obstacle2DBase_dy p of
        Inl err \<Rightarrow> Inl err
      | Inr _ \<Rightarrow>
          (case p of
             NotVec \<Rightarrow> Inl TypeError
           | Vec q \<Rightarrow>
               (let xd = x q - x (center e);
                    yd = y q - y (center e);
                    ct = cos (theta e);
                    st = sin (theta e)
                in if a e = 0 \<or> b e = 0 then Inr NonFinite
                   else Inr (Finite ((2 * st / (a e)\<^sup>2) * (xd * ct + yd * st)
                                     + (2 * ct / (b e)\<^sup>2) * (- xd * st + yd * ct))))))"

text \<open>\<^verbatim>\<open>dtheta\<close> is the base-class method.\<close>

definition Ellipse2D_dtheta :: "Ellipse2D \<Rightarrow> arg \<Rightarrow> error + number" where
  "Ellipse2D_dtheta e p = Obstacle2DBase_dtheta p"

text \<open>
  \<^verbatim>\<open>gradient\<close>: the base-class call is the type check (its result is dropped); then
  the three partials are evaluated in order and stacked into a 3-by-1 matrix.
\<close>

definition Ellipse2D_gradient :: "Ellipse2D \<Rightarrow> arg \<Rightarrow> error + number list" where
  "Ellipse2D_gradient e p =
     (case Obstacle2DBase_gradient p of
        Inl err \<Rightarrow> Inl err
      | Inr _ \<Rightarrow>
          (case Ellipse2D_dx e p of
             Inl err \<Rightarrow> Inl err
           | Inr u \<Rightarrow>
               (case Ellipse2D_dy e p of
                  Inl err \<Rightarrow> Inl err
                | Inr v \<Rightarrow>
                    (case Ellipse2D_dtheta e p of
                       Inl err \<Rightarrow> Inl err
                     | Inr w \<Rightarrow> Inr [u, v, w]))))"

text \<open>
  \<^verbatim>\<open>update(a, b, center, theta, buffer)\<close>, every argument optional (\<^verbatim>\<open>None\<close> when
  absent). The assignments happen in the order of the source, so a \<^verbatim>\<open>center\<close> that is
  not a \<^verbatim>\<open>Vector2\<close> raises after \<^verbatim>\<open>a\<close> and \<^verbatim>\<open>b\<close> were stored. The result is the
  exception raised, if any, and the object as the call leaves it.
\<close>

definition Ellipse2D_update ::
  "real option \<Rightarrow> real option \<Rightarrow> arg option \<Rightarrow> real option \<Rightarrow> real option \<Rightarrow> Ellipse2D
     \<Rightarrow> error option \<times> Ellipse2D" where
  "Ellipse2D_update na nb nc nt nbuf e =
     (let e1 = (case na of None \<Rightarrow> e | Some v \<Rightarrow> e\<lparr>a := v\<rparr>);
          e2 = (case nb of None \<Rightarrow> e1 | Some v \<Rightarrow> e1\<lparr>b := v\<rparr>)
      in case nc of
           Some NotVec \<Rightarrow> (Some TypeError, e2)
         | _ \<Rightarrow>
           (let e3 = (case nc of Some (Vec v) \<Rightarrow> e2\<lparr>center := v\<rparr> | _ \<Rightarrow> e2);
                e4 = (case nt of None \<Rightarrow> e3 | Some v \<Rightarrow> e3\<lparr>theta := v\<rparr>);
                e5 = (case nbuf of
                        None \<Rightarrow> e4
                      | Some v \<Rightarrow>
                          if BUFFER_FLAG e4
                          then e4\<lparr>a := a e4 - buffer e4 + v, b := b e4 - buffer e4 + v,
                                  buffer := v\<rparr>
                          else e4\<lparr>buffer := v\<rparr>)
            in (None, e5)))"

definition updateCoords :: "arg \<Rightarrow> Ellipse2D \<Rightarrow> error option \<times> Ellipse2D" where
  "updateCoords xy e = (case xy of NotVec \<Rightarrow> (Some TypeError, e) | Vec v \<Rightarrow> (None, e\<lparr>center := v\<rparr>))"

definition updateOrientation :: "real \<Rightarrow> Ellipse2D \<Rightarrow> Ellipse2D" where
  "updateOrientation yaw e = e\<lparr>theta := yaw\<rparr>"

definition Ellipse2D_updateByBoundingBox :: "BoundingBox \<Rightarrow> Ellipse2D \<Rightarrow> error option \<times> Ellipse2D" where
  "Ellipse2D_updateByBoundingBox bbox e =
     Ellipse2D_update (Some (extent_x bbox)) (Some (extent_y bbox))
       (Some (Vec \<lparr>x = location_x bbox, y = location_y bbox\<rparr>))
       (Some (rotation_yaw bbox)) None e"

text \<open>
  \<^verbatim>\<open>fromBoundingBox(cls, BBox, buffer)\<close> starts with
  \<^verbatim>\<open>isinstance(BBox, carla.BoundingBox)\<close>. The module's \<^verbatim>\<open>import carla\<close> (line 14)
  is commented out and \<^verbatim>\<open>from euclid import *\<close> binds no such name, so looking up the
  global \<^verbatim>\<open>carla\<close> raises \<^verbatim>\<open>NameError\<close>. The first argument says whether the global
  name is bound when the method runs; \<open>carla_imported\<close> is its value in the module as it
  is written. With the name bound, a \<open>BoundingBox\<close> passes the test.
\<close>

definition carla_imported :: bool where
  "carla_imported = False"

definition fromBoundingBox :: "bool \<Rightarrow> BoundingBox \<Rightarrow> real \<Rightarrow> error + Ellipse2D" where
  "fromBoundingBox carla bbox buf =
     (if \<not> carla then Inl NameError
      else Ellipse2D_init (extent_x bbox) (extent_y bbox)
             (Vec \<lparr>x = location_x bbox, y = location_y bbox\<rparr>) (rotation_yaw bbox) buf)"

section \<open>Objects and the store\<close>

text \<open>
  The collection holds references. An object in the store is an \<^verbatim>\<open>Ellipse2D\<close>, a plain
  \<^verbatim>\<open>Obstacle2DBase\<close> instance, or an object of a class that does not derive from
  \<^verbatim>\<open>Obstacle2DBase\<close>; the last kind is taken to have none of the obstacle methods.
\<close>

datatype obj = EllipseObj Ellipse2D | BaseObj | ForeignObj

type_synonym addr = nat

text \<open>\<^verbatim>\<open>Obstacle2DBase in value.__class__.__mro__\<close>\<close>

fun derives_Obstacle2DBase :: "obj \<Rightarrow> bool" where
  "derives_Obstacle2DBase (EllipseObj e) = True"
| "derives_Obstacle2DBase BaseObj = True"
| "derives_Obstacle2DBase ForeignObj = False"

text \<open>Method dispatch on the class of the receiver.\<close>

fun obj_f :: "obj \<Rightarrow> arg \<Rightarrow> error + number" where
  "obj_f (EllipseObj e) p = Ellipse2D_f e p"
| "obj_f BaseObj p = Obstacle2DBase_f p"
| "obj_f ForeignObj p = Inl AttributeError"

fun obj_dx :: "obj \<Rightarrow> arg \<Rightarrow> error + number" where
  "obj_dx (EllipseObj e) p = Ellipse2D_dx e p"
| "obj_dx BaseObj p = Obstacle2DBase_dx p"
| "obj_dx ForeignObj p = Inl AttributeError"

fun obj_dy :: "obj \<Rightarrow> arg \<Rightarrow> error + number" where
  "obj_dy (EllipseObj e) p = Ellipse2D_dy e p"
| "obj_dy BaseObj p = Obstacle2DBase_dy p"
| "obj_dy ForeignObj p = Inl AttributeError"

fun obj_dtheta :: "obj \<Rightarrow> arg \<Rightarrow> error + number" where
  "obj_dtheta (EllipseObj e) p = Ellipse2D_dtheta e p"
| "obj_dtheta BaseObj p = Obstacle2DBase_dtheta p"
| "obj_dtheta ForeignObj p = Inl AttributeError"

fun obj_gradient :: "obj \<Rightarrow> arg \<Rightarrow> error + number list" where
  "obj_gradient (EllipseObj e) p = Ellipse2D_gradient e p"
| "obj_gradient BaseObj p = Obstacle2DBase_gradient p"
| "obj_gradient ForeignObj p = Inl AttributeError"

text \<open>
  \<^verbatim>\<open>updateByBoundingBox\<close> exists on \<^verbatim>\<open>Ellipse2D\<close> only: the base class does not
  define it. The result is the exception raised, if any, and the object after the call.
\<close>

fun obj_updateByBoundingBox :: "BoundingBox \<Rightarrow> obj \<Rightarrow> error option \<times> obj" where
  "obj_updateByBoundingBox bbox (EllipseObj e) =
     (case Ellipse2D_updateByBoundingBox bbox e of (r, e') \<Rightarrow> (r, EllipseObj e'))"
| "obj_updateByBoundingBox bbox BaseObj = (Some AttributeError, BaseObj)"
| "obj_updateByBoundingBox bbox ForeignObj = (Some AttributeError, ForeignObj)"

section \<open>ObstacleList2D\<close>

text \<open>
  The program state a call works on: the store of objects, the next free address, and
  \<^verbatim>\<open>self.mapping\<close>, a Python \<^verbatim>\<open>dict\<close> from keys to references. A \<^verbatim>\<open>dict\<close> iterates in
  insertion order, so it is a list of pairs with distinct keys.
\<close>

record 'k state =
  heap :: "addr \<Rightarrow> obj"
  next_addr :: addr
  mapping :: "('k \<times> addr) list"

text \<open>\<^verbatim>\<open>d[k] = v\<close> on a \<^verbatim>\<open>dict\<close>: a present key keeps its place, a new key goes last.\<close>

fun dict_set :: "('k \<times> 'v) list \<Rightarrow> 'k \<Rightarrow> 'v \<Rightarrow> ('k \<times> 'v) list" where
  "dict_set [] k v = [(k, v)]"
| "dict_set ((k', v') # kvs) k v =
     (if k' = k then (k', v) # kvs else (k', v') # dict_set kvs k v)"

definition getitem :: "'k \<Rightarrow> 'k state \<Rightarrow> error + addr" where
  "getitem key s = (case map_of (mapping s) key of None \<Rightarrow> Inl KeyError | Some v \<Rightarrow> Inr v)"

definition delitem :: "'k \<Rightarrow> 'k state \<Rightarrow> error option \<times> 'k state" where
  "delitem key s =
     (case map_of (mapping s) key of
        None \<Rightarrow> (Some KeyError, s)
      | Some v \<Rightarrow> (None, s\<lparr>mapping := filter (\<lambda>kv. fst kv \<noteq> key) (mapping s)\<rparr>))"

definition setitem :: "'k \<Rightarrow> addr \<Rightarrow> 'k state \<Rightarrow> error option \<times> 'k state" where
  "setitem key val s =
     (if \<not> derives_Obstacle2DBase (heap s val) then (Some TypeError, s)
      else (None, s\<lparr>mapping := dict_set (mapping s) key val\<rparr>))"

text \<open>
  \<^verbatim>\<open>self.pop(key)\<close> is the mixin method of \<^verbatim>\<open>collections.abc.MutableMapping\<close> called
  without a default: \<^verbatim>\<open>self[key]\<close>, then \<^verbatim>\<open>del self[key]\<close>.
\<close>

definition pop :: "'k \<Rightarrow> 'k state \<Rightarrow> error option \<times> 'k state" where
  "pop key s = (case getitem key s of Inl err \<Rightarrow> (Some err, s) | Inr v \<Rightarrow> delitem key s)"

definition ELLIPSE2D :: int where
  "ELLIPSE2D = 0"

text \<open>
  The first loop of \<^verbatim>\<open>updateByBoundingBox\<close>, over \<^verbatim>\<open>obs_dict.items()\<close>: a present key
  has its obstacle updated in the store; an absent key gets a new ellipse, allocated at
  the next free address, when \<^verbatim>\<open>obs_type == ELLIPSE2D\<close>. An exception ends the loop and
  leaves the state as it is at that moment.
\<close>

fun update_loop ::
  "bool \<Rightarrow> int \<Rightarrow> real \<Rightarrow> ('k \<times> BoundingBox) list \<Rightarrow> 'k state \<Rightarrow> error option \<times> 'k state" where
  "update_loop carla obs_type buf [] s = (None, s)"
| "update_loop carla obs_type buf ((key, bbox) # rest) s =
     (case map_of (mapping s) key of
        Some ad \<Rightarrow>
          (case obj_updateByBoundingBox bbox (heap s ad) of
             (Some err, ob) \<Rightarrow> (Some err, s\<lparr>heap := (heap s)(ad := ob)\<rparr>)
           | (None, ob) \<Rightarrow>
               update_loop carla obs_type buf rest (s\<lparr>heap := (heap s)(ad := ob)\<rparr>))
      | None \<Rightarrow>
          if obs_type = ELLIPSE2D then
            (case fromBoundingBox carla bbox buf of
               Inl err \<Rightarrow> (Some err, s)
             | Inr e \<Rightarrow>
                 (case setitem key (next_addr s)
                         (s\<lparr>heap := (heap s)(next_addr s := EllipseObj e),
                            next_addr := Suc (next_addr s)\<rparr>) of
                    (Some err, s') \<Rightarrow> (Some err, s')
                  | (None, s') \<Rightarrow> update_loop carla obs_type buf rest s'))
          else update_loop carla obs_type buf rest s)"

text \<open>
  The second loop, \<^verbatim>\<open>for key in self.mapping.keys()\<close>, pops keys from the dict it is
  iterating. A CPython dict iterator records the size of the dict when it is created and
  compares it with the current size at the start of every \<^verbatim>\<open>next\<close>; when they differ it
  raises \<^verbatim>\<open>RuntimeError: dictionary changed size during iteration\<close>. The loop takes the
  keys still to be visited and the recorded size; as long as the size is unchanged nothing
  was popped, so those keys are the entries the iterator has not reached.
\<close>

fun remove_loop :: "'k list \<Rightarrow> nat \<Rightarrow> 'k list \<Rightarrow> 'k state \<Rightarrow> error option \<times> 'k state" where
  "remove_loop [] used obs_keys s =
     (if length (mapping s) \<noteq> used then (Some RuntimeError, s) else (None, s))"
| "remove_loop (key # rest) used obs_keys s =
     (if length (mapping s) \<noteq> used then (Some RuntimeError, s)
      else if key \<notin> set obs_keys then
             (case pop key s of
                (Some err, s') \<Rightarrow> (Some err, s')
              | (None, s') \<Rightarrow> remove_loop rest used obs_keys s')
           else remove_loop rest used obs_keys s)"

text \<open>
  \<^verbatim>\<open>updateByBoundingBox(self, obs_dict, obs_type, buffer)\<close>. \<^verbatim>\<open>obs_dict\<close> is \<^verbatim>\<open>None\<close>
  or a dict of bounding boxes.
\<close>

definition updateByBoundingBox ::
  "bool \<Rightarrow> ('k \<times> BoundingBox) list option \<Rightarrow> int \<Rightarrow> real \<Rightarrow> 'k state \<Rightarrow> error option \<times> 'k state" where
  "updateByBoundingBox carla obs_dict obs_type buf s =
     (case obs_dict of
        None \<Rightarrow> (None, s)
      | Some od \<Rightarrow>
          (case update_loop carla obs_type buf od s of
             (Some err, s1) \<Rightarrow> (Some err, s1)
           | (None, s1) \<Rightarrow>
               remove_loop (map fst (mapping s1)) (length (mapping s1)) (map fst od) s1))"

text \<open>
  Batch evaluation. \<^verbatim>\<open>matrix(0.0, (n, 1))\<close> is a list of \<open>n\<close> zeros and
  \<^verbatim>\<open>m[idx] = v\<close> writes one entry, raising \<^verbatim>\<open>IndexError\<close> out of range. Each loop
  walks \<^verbatim>\<open>self.mapping.values()\<close> with its own counter.
\<close>

fun batch_loop ::
  "(obj \<Rightarrow> arg \<Rightarrow> error + 'v) \<Rightarrow> (addr \<Rightarrow> obj) \<Rightarrow> arg \<Rightarrow> addr list \<Rightarrow> nat \<Rightarrow> 'v list
     \<Rightarrow> error + 'v list" where
  "batch_loop m h p [] idx out = Inr out"
| "batch_loop m h p (ad # ads) idx out =
     (case m (h ad) p of
        Inl err \<Rightarrow> Inl err
      | Inr v \<Rightarrow>
          if idx < length out then batch_loop m h p ads (idx + 1) (out[idx := v])
          else Inl IndexError)"

definition ObstacleList2D_f :: "'k state \<Rightarrow> arg \<Rightarrow> error + number list" where
  "ObstacleList2D_f s p =
     batch_loop obj_f (heap s) p (map snd (mapping s)) 0
       (replicate (length (mapping s)) (Finite 0))"

definition ObstacleList2D_dx :: "'k state \<Rightarrow> arg \<Rightarrow> error + number list" where
  "ObstacleList2D_dx s p =
     batch_loop obj_dx (heap s) p (map snd (mapping s)) 0
       (replicate (length (mapping s)) (Finite 0))"

definition ObstacleList2D_dy :: "'k state \<Rightarrow> arg \<Rightarrow> error + number list" where
  "ObstacleList2D_dy s p =
     batch_loop obj_dy (heap s) p (map snd (mapping s)) 0
       (replicate (length (mapping s)) (Finite 0))"

definition ObstacleList2D_dtheta :: "'k state \<Rightarrow> arg \<Rightarrow> error + number list" where
  "ObstacleList2D_dtheta s p =
     batch_loop obj_dtheta (heap s) p (map snd (mapping s)) 0
       (replicate (length (mapping s)) (Finite 0))"

text \<open>
  \<^verbatim>\<open>gradient\<close>: an \<open>n\<close>-by-3 matrix of zeros, a list of rows; \<^verbatim>\<open>df[idx,:] = g.T\<close>
  writes row \<open>idx\<close> with the transposed 3-by-1 gradient of the obstacle.
\<close>

definition ObstacleList2D_gradient :: "'k state \<Rightarrow> arg \<Rightarrow> error + number list list" where
  "ObstacleList2D_gradient s p =
     batch_loop obj_gradient (heap s) p (map snd (mapping s)) 0
       (replicate (length (mapping s)) [Finite 0, Finite 0, Finite 0])"

section \<open>Notions used to state the properties\<close>

text \<open>The real number a call returned; 0 stands in when it raised or was not finite.\<close>

fun finite_value :: "error + number \<Rightarrow> real" where
  "finite_value (Inr (Finite r)) = r"
| "finite_value (Inr NonFinite) = 0"
| "finite_value (Inl err) = 0"

text \<open>
  The barrier value as a function of one coordinate, the others fixed: of the query point's
  \<^verbatim>\<open>x\<close> or \<^verbatim>\<open>y\<close>, and of the ellipse's \<^verbatim>\<open>center.x\<close> or \<^verbatim>\<open>center.y\<close>.
\<close>

definition f_along_point_x :: "Ellipse2D \<Rightarrow> Vector2 \<Rightarrow> real \<Rightarrow> real" where
  "f_along_point_x e p t = finite_value (Ellipse2D_f e (Vec (p\<lparr>x := t\<rparr>)))"

definition f_along_point_y :: "Ellipse2D \<Rightarrow> Vector2 \<Rightarrow> real \<Rightarrow> real" where
  "f_along_point_y e p t = finite_value (Ellipse2D_f e (Vec (p\<lparr>y := t\<rparr>)))"

definition f_along_center_x :: "Ellipse2D \<Rightarrow> Vector2 \<Rightarrow> real \<Rightarrow> real" where
  "f_along_center_x e p t = finite_value (Ellipse2D_f (e\<lparr>center := (center e)\<lparr>x := t\<rparr>\<rparr>) (Vec p))"

definition f_along_center_y :: "Ellipse2D \<Rightarrow> Vector2 \<Rightarrow> real \<Rightarrow> real" where
  "f_along_center_y e p t = finite_value (Ellipse2D_f (e\<lparr>center := (center e)\<lparr>y := t\<rparr>\<rparr>) (Vec p))"

text \<open>
  The point of the plane at scale \<open>r\<close> and angle \<open>phi\<close> in the frame of the ellipse:
  \<open>center + R(theta) (r a cos phi, r b sin phi)\<close>. Scale 1 is the boundary, a scale
  below 1 is strictly inside, a scale above 1 strictly outside.
\<close>

definition ellipse_point :: "Ellipse2D \<Rightarrow> real \<Rightarrow> real \<Rightarrow> Vector2" where
  "ellipse_point e r phi =
     \<lparr>x = x (center e) + r * a e * cos phi * cos (theta e) - r * b e * sin phi * sin (theta e),
      y = y (center e) + r * a e * cos phi * sin (theta e) + r * b e * sin phi * cos (theta e)\<rparr>"

section \<open>Concrete objects and states\<close>

text \<open>A circle of radius 1 at the origin, no buffer.\<close>

definition unit_circle :: Ellipse2D where
  "unit_circle = \<lparr>center = \<lparr>x = 0, y = 0\<rparr>, theta = 0, a = 1, b = 1, buffer = 0,
                  BUFFER_FLAG = True\<rparr>"

text \<open>
  What \<^verbatim>\<open>Ellipse2D(0, 1)\<close> builds: the constructor checks no bound, so the first
  semi-axis is 0.
\<close>

definition flat_ellipse :: Ellipse2D where
  "flat_ellipse = \<lparr>center = \<lparr>x = 0, y = 0\<rparr>, theta = 0, a = 0, b = 1, buffer = 0,
                   BUFFER_FLAG = True\<rparr>"

text \<open>
  Two tracked obstacles as \<^verbatim>\<open>Ellipse2D(1, 1, Vector2(0, 0), 0, 0.5)\<close> and
  \<^verbatim>\<open>Ellipse2D(2, 1, Vector2(5, 5), 0, 0.5)\<close> build them, and a collection holding them
  under the keys 1 and 2, at the addresses 0 and 1.
\<close>

definition tracked1 :: Ellipse2D where
  "tracked1 = \<lparr>center = \<lparr>x = 0, y = 0\<rparr>, theta = 0, a = 3/2, b = 3/2, buffer = 1/2,
               BUFFER_FLAG = True\<rparr>"

definition tracked2 :: Ellipse2D where
  "tracked2 = \<lparr>center = \<lparr>x = 5, y = 5\<rparr>, theta = 0, a = 5/2, b = 3/2, buffer = 1/2,
               BUFFER_FLAG = True\<rparr>"

definition scene :: "int state" where
  "scene = \<lparr>heap = (\<lambda>ad. ForeignObj)(0 := EllipseObj tracked1, 1 := EllipseObj tracked2),
            next_addr = 2, mapping = [(1, 0), (2, 1)]\<rparr>"

text \<open>Bounding boxes observed for the keys 2 and 3, and one of extent 1 at the origin.\<close>

definition bbox2 :: BoundingBox where
  "bbox2 = \<lparr>extent_x = 2, extent_y = 1, location_x = 6, location_y = 5, rotation_yaw = 0\<rparr>"

definition bbox3 :: BoundingBox where
  "bbox3 = \<lparr>extent_x = 1, extent_y = 1, location_x = 9, location_y = 9, rotation_yaw = 0\<rparr>"

definition bbox_unit :: BoundingBox where
  "bbox_unit = \<lparr>extent_x = 1, extent_y = 1, location_x = 0, location_y = 0, rotation_yaw = 0\<rparr>"

section \<open>Auxiliary facts\<close>

subsection \<open>Real arithmetic of a rotation\<close>

lemma rot_u:
  fixes c s :: real
  assumes "c * c + s * s = 1"
  shows "(A * c - B * s) * c + (A * s + B * c) * s = A"
proof -
  have "(A * c - B * s) * c + (A * s + B * c) * s = A * (c * c + s * s)"
    by (simp add: algebra_simps)
  then show ?thesis by (simp add: assms)
qed

lemma rot_v:
  fixes c s :: real
  assumes "c * c + s * s = 1"
  shows "- (A * c - B * s) * s + (A * s + B * c) * c = B"
proof -
  have "- (A * c - B * s) * s + (A * s + B * c) * c = B * (c * c + s * s)"
    by (simp add: algebra_simps)
  then show ?thesis by (simp add: assms)
qed

lemma rot_back_x:
  fixes c s :: real
  assumes "c * c + s * s = 1"
  shows "(dx * c + dy * s) * c - (- dx * s + dy * c) * s = dx"
proof -
  have "(dx * c + dy * s) * c - (- dx * s + dy * c) * s = dx * (c * c + s * s)"
    by (simp add: algebra_simps)
  then show ?thesis by (simp add: assms)
qed

lemma rot_back_y:
  fixes c s :: real
  assumes "c * c + s * s = 1"
  shows "(dx * c + dy * s) * s + (- dx * s + dy * c) * c = dy"
proof -
  have "(dx * c + dy * s) * s + (- dx * s + dy * c) * c = dy * (c * c + s * s)"
    by (simp add: algebra_simps)
  then show ?thesis by (simp add: assms)
qed

lemma unit_sq:
  fixes c s r :: real
  assumes "c * c + s * s = 1"
  shows "(r * c)\<^sup>2 + (r * s)\<^sup>2 - 1 = r\<^sup>2 - 1"
proof -
  have "(r * c)\<^sup>2 + (r * s)\<^sup>2 = r\<^sup>2 * (c * c + s * s)"
    by (simp add: power2_eq_square algebra_simps)
  then show ?thesis by (simp add: assms)
qed

lemma sq_lt1: "0 \<le> (r::real) \<Longrightarrow> r < 1 \<Longrightarrow> r\<^sup>2 - 1 < 0"
  by (simp add: abs_square_less_1)

lemma sq_gt1: "1 < (r::real) \<Longrightarrow> 0 < r\<^sup>2 - 1"
  by simp

lemma polar_nonneg: "\<exists>r\<ge>0. \<exists>phi. (u::real) = r * cos phi \<and> v = r * sin phi"
proof -
  obtain r phi where rp: "u = r * cos phi" "v = r * sin phi"
    using polar_Ex[of u v] by blast
  show ?thesis
  proof (cases "0 \<le> r")
    case True
    then show ?thesis using rp by blast
  next
    case False
    then have "0 \<le> - r" "u = (- r) * cos (phi + pi)" "v = (- r) * sin (phi + pi)"
      using rp by simp_all
    then show ?thesis by blast
  qed
qed

lemma quad_deriv:
  fixes A B :: real
  assumes "A \<noteq> 0" "B \<noteq> 0"
  shows "((\<lambda>t. ((k * t + m) / A)\<^sup>2 + ((l * t + n) / B)\<^sup>2 - 1) has_real_derivative
           (2 * k / A\<^sup>2) * (k * t0 + m) + (2 * l / B\<^sup>2) * (l * t0 + n)) (at t0)"
  using assms
  by (auto intro!: derivative_eq_intros simp: power2_eq_square field_simps)

subsection \<open>The ellipse\<close>

lemma evaluate_formula:
  "a e \<noteq> 0 \<Longrightarrow> b e \<noteq> 0 \<Longrightarrow>
   Ellipse2D_evaluate e (Vec p) =
     Inr (Finite ((((x p - x (center e)) * cos (theta e)
                     + (y p - y (center e)) * sin (theta e)) / a e)\<^sup>2
                  + ((- (x p - x (center e)) * sin (theta e)
                      + (y p - y (center e)) * cos (theta e)) / b e)\<^sup>2 - 1))"
  unfolding Ellipse2D_evaluate_def Let_def by simp

lemma ellipse_point_value:
  assumes "a e \<noteq> 0" "b e \<noteq> 0"
  shows "Ellipse2D_evaluate e (Vec (ellipse_point e r phi)) = Inr (Finite (r\<^sup>2 - 1))"
proof -
  let ?ct = "cos (theta e)" and ?st = "sin (theta e)" and ?cp = "cos phi" and ?sp = "sin phi"
  let ?q = "ellipse_point e r phi"
  have cs: "?ct * ?ct + ?st * ?st = 1" and ps: "?cp * ?cp + ?sp * ?sp = 1"
    by simp_all
  have xd: "x ?q - x (center e) = (r * a e * ?cp) * ?ct - (r * b e * ?sp) * ?st"
   and yd: "y ?q - y (center e) = (r * a e * ?cp) * ?st + (r * b e * ?sp) * ?ct"
    by (simp_all add: ellipse_point_def)
  have u: "(x ?q - x (center e)) * ?ct + (y ?q - y (center e)) * ?st = r * a e * ?cp"
    unfolding xd yd by (rule rot_u[OF cs])
  have v: "- (x ?q - x (center e)) * ?st + (y ?q - y (center e)) * ?ct = r * b e * ?sp"
    unfolding xd yd by (rule rot_v[OF cs])
  have qa: "(r * a e * ?cp) / a e = r * ?cp" and qb: "(r * b e * ?sp) / b e = r * ?sp"
    using assms by simp_all
  show ?thesis
    unfolding Ellipse2D_evaluate_def Let_def arg.case u v qa qb unit_sq[OF ps]
    using assms by simp
qed

text \<open>
  With non-zero semi-axes every point of the plane is \<open>ellipse_point e r phi\<close> for some
  scale \<open>r \<ge> 0\<close>, so the scale sorts all points into inside, boundary and outside.
\<close>

lemma every_point_is_ellipse_point:
  assumes "a e \<noteq> 0" "b e \<noteq> 0"
  shows "\<exists>r\<ge>0. \<exists>phi. p = ellipse_point e r phi"
proof -
  let ?ct = "cos (theta e)" and ?st = "sin (theta e)"
  let ?dx = "x p - x (center e)" and ?dy = "y p - y (center e)"
  let ?u = "(?dx * ?ct + ?dy * ?st) / a e" and ?v = "(- ?dx * ?st + ?dy * ?ct) / b e"
  have cs: "?ct * ?ct + ?st * ?st = 1" by simp
  obtain r phi where r: "0 \<le> r" and u: "?u = r * cos phi" and v: "?v = r * sin phi"
    using polar_nonneg[of ?u ?v] by blast
  have au: "r * a e * cos phi = ?dx * ?ct + ?dy * ?st"
    using u assms(1) by (simp add: field_simps)
  have bv: "r * b e * sin phi = - ?dx * ?st + ?dy * ?ct"
    using v assms(2) by (simp add: field_simps)
  have "x (ellipse_point e r phi)
      = x (center e) + ((r * a e * cos phi) * ?ct - (r * b e * sin phi) * ?st)"
    by (simp add: ellipse_point_def)
  also have "\<dots> = x (center e) + ?dx"
    unfolding au bv rot_back_x[OF cs] ..
  finally have ex: "x (ellipse_point e r phi) = x p" by simp
  have "y (ellipse_point e r phi)
      = y (center e) + ((r * a e * cos phi) * ?st + (r * b e * sin phi) * ?ct)"
    by (simp add: ellipse_point_def)
  also have "\<dots> = y (center e) + ?dy"
    unfolding au bv rot_back_y[OF cs] ..
  finally have ey: "y (ellipse_point e r phi) = y p" by simp
  have "p = ellipse_point e r phi"
    using ex ey by (simp add: ellipse_point_def)
  then show ?thesis using r by blast
qed

lemma dx_returns: "\<exists>u. Ellipse2D_dx e (Vec p) = Inr u"
  by (simp add: Ellipse2D_dx_def Obstacle2DBase_dx_def Let_def)

lemma dy_returns: "\<exists>u. Ellipse2D_dy e (Vec p) = Inr u"
  by (simp add: Ellipse2D_dy_def Obstacle2DBase_dy_def Let_def)

lemma dx_formula:
  "a e \<noteq> 0 \<Longrightarrow> b e \<noteq> 0 \<Longrightarrow>
   Ellipse2D_dx e (Vec p) =
     Inr (Finite ((2 * cos (theta e) / (a e)\<^sup>2)
                    * ((x p - x (center e)) * cos (theta e) + (y p - y (center e)) * sin (theta e))
                  + (- 2 * sin (theta e) / (b e)\<^sup>2)
                    * (- (x p - x (center e)) * sin (theta e)
                       + (y p - y (center e)) * cos (theta e))))"
  unfolding Ellipse2D_dx_def Obstacle2DBase_dx_def Let_def by simp

lemma dy_formula:
  "a e \<noteq> 0 \<Longrightarrow> b e \<noteq> 0 \<Longrightarrow>
   Ellipse2D_dy e (Vec p) =
     Inr (Finite ((2 * sin (theta e) / (a e)\<^sup>2)
                    * ((x p - x (center e)) * cos (theta e) + (y p - y (center e)) * sin (theta e))
                  + (2 * cos (theta e) / (b e)\<^sup>2)
                    * (- (x p - x (center e)) * sin (theta e)
                       + (y p - y (center e)) * cos (theta e))))"
  unfolding Ellipse2D_dy_def Obstacle2DBase_dy_def Let_def by simp

subsection \<open>Partial derivatives of the barrier value\<close>

lemma f_point_x_deriv:
  assumes "a e \<noteq> 0" "b e \<noteq> 0"
  shows "(f_along_point_x e p has_real_derivative finite_value (Ellipse2D_dx e (Vec p)))
           (at (x p))"
proof -
  let ?ct = "cos (theta e)" and ?st = "sin (theta e)"
  let ?m = "- x (center e) * ?ct + (y p - y (center e)) * ?st"
  let ?n = "x (center e) * ?st + (y p - y (center e)) * ?ct"
  have fn: "f_along_point_x e p
      = (\<lambda>t. ((?ct * t + ?m) / a e)\<^sup>2 + ((- ?st * t + ?n) / b e)\<^sup>2 - 1)"
    using assms
    by (auto simp add: f_along_point_x_def Ellipse2D_f_def Ellipse2D_evaluate_def Let_def
        fun_eq_iff algebra_simps)
  have dv: "finite_value (Ellipse2D_dx e (Vec p))
      = (2 * ?ct / (a e)\<^sup>2) * (?ct * x p + ?m) + (2 * (- ?st) / (b e)\<^sup>2) * (- ?st * x p + ?n)"
    unfolding dx_formula[OF assms] by (simp add: algebra_simps)
  show ?thesis unfolding fn dv by (rule quad_deriv[OF assms])
qed

lemma f_point_y_deriv:
  assumes "a e \<noteq> 0" "b e \<noteq> 0"
  shows "(f_along_point_y e p has_real_derivative finite_value (Ellipse2D_dy e (Vec p)))
           (at (y p))"
proof -
  let ?ct = "cos (theta e)" and ?st = "sin (theta e)"
  let ?m = "(x p - x (center e)) * ?ct - y (center e) * ?st"
  let ?n = "- (x p - x (center e)) * ?st - y (center e) * ?ct"
  have fn: "f_along_point_y e p
      = (\<lambda>t. ((?st * t + ?m) / a e)\<^sup>2 + ((?ct * t + ?n) / b e)\<^sup>2 - 1)"
    using assms
    by (auto simp add: f_along_point_y_def Ellipse2D_f_def Ellipse2D_evaluate_def Let_def
        fun_eq_iff algebra_simps)
  have dv: "finite_value (Ellipse2D_dy e (Vec p))
      = (2 * ?st / (a e)\<^sup>2) * (?st * y p + ?m) + (2 * ?ct / (b e)\<^sup>2) * (?ct * y p + ?n)"
    unfolding dy_formula[OF assms] by (simp add: algebra_simps)
  show ?thesis unfolding fn dv by (rule quad_deriv[OF assms])
qed

lemma f_center_x_deriv:
  assumes "a e \<noteq> 0" "b e \<noteq> 0"
  shows "(f_along_center_x e p has_real_derivative - finite_value (Ellipse2D_dx e (Vec p)))
           (at (x (center e)))"
proof -
  let ?ct = "cos (theta e)" and ?st = "sin (theta e)"
  let ?m = "x p * ?ct + (y p - y (center e)) * ?st"
  let ?n = "- x p * ?st + (y p - y (center e)) * ?ct"
  have fn: "f_along_center_x e p
      = (\<lambda>t. ((- ?ct * t + ?m) / a e)\<^sup>2 + ((?st * t + ?n) / b e)\<^sup>2 - 1)"
    using assms
    by (auto simp add: f_along_center_x_def Ellipse2D_f_def Ellipse2D_evaluate_def Let_def
        fun_eq_iff algebra_simps)
  have dv: "- finite_value (Ellipse2D_dx e (Vec p))
      = (2 * (- ?ct) / (a e)\<^sup>2) * (- ?ct * x (center e) + ?m)
        + (2 * ?st / (b e)\<^sup>2) * (?st * x (center e) + ?n)"
    unfolding dx_formula[OF assms] by (simp add: algebra_simps)
  show ?thesis unfolding fn dv by (rule quad_deriv[OF assms])
qed

lemma f_center_y_deriv:
  assumes "a e \<noteq> 0" "b e \<noteq> 0"
  shows "(f_along_center_y e p has_real_derivative - finite_value (Ellipse2D_dy e (Vec p)))
           (at (y (center e)))"
proof -
  let ?ct = "cos (theta e)" and ?st = "sin (theta e)"
  let ?m = "(x p - x (center e)) * ?ct + y p * ?st"
  let ?n = "- (x p - x (center e)) * ?st + y p * ?ct"
  have fn: "f_along_center_y e p
      = (\<lambda>t. ((- ?st * t + ?m) / a e)\<^sup>2 + ((- ?ct * t + ?n) / b e)\<^sup>2 - 1)"
    using assms
    by (auto simp add: f_along_center_y_def Ellipse2D_f_def Ellipse2D_evaluate_def Let_def
        fun_eq_iff algebra_simps)
  have dv: "- finite_value (Ellipse2D_dy e (Vec p))
      = (2 * (- ?st) / (a e)\<^sup>2) * (- ?st * y (center e) + ?m)
        + (2 * (- ?ct) / (b e)\<^sup>2) * (- ?ct * y (center e) + ?n)"
    unfolding dy_formula[OF assms] by (simp add: algebra_simps)
  show ?thesis unfolding fn dv by (rule quad_deriv[OF assms])
qed

subsection \<open>The buffer on the paths that keep it\<close>

text \<open>
  Removing the buffer after construction gives back the constructor's semi-axes, and it
  still does after \<^verbatim>\<open>update(buffer=v)\<close>; construction from a bounding box gives the
  extent plus the buffer.
\<close>

lemma init_then_removeBuffer:
  "Ellipse2D_init a0 b0 (Vec c) th buf = Inr e \<Longrightarrow>
   a (snd (removeBuffer e)) = a0 \<and> b (snd (removeBuffer e)) = b0"
  by (auto simp add: Ellipse2D_init_def removeBuffer_def)

lemma update_buffer_then_removeBuffer:
  "BUFFER_FLAG e \<Longrightarrow>
   a (snd (removeBuffer (snd (Ellipse2D_update None None None None (Some v) e))))
     = a (snd (removeBuffer e))
   \<and> b (snd (removeBuffer (snd (Ellipse2D_update None None None None (Some v) e))))
     = b (snd (removeBuffer e))"
  by (simp add: Ellipse2D_update_def removeBuffer_def)

lemma fromBoundingBox_adds_buffer:
  "fromBoundingBox True bbox buf = Inr e \<Longrightarrow>
   a e = extent_x bbox + buf \<and> b e = extent_y bbox + buf \<and> BUFFER_FLAG e \<and> buffer e = buf"
  by (auto simp add: fromBoundingBox_def Ellipse2D_init_def)

subsection \<open>The dict and the batch loops\<close>

lemma dict_set_lookup: "map_of (dict_set kvs k v) k' = (if k' = k then Some v else map_of kvs k')"
  by (induction kvs) auto

lemma batch_loop_map:
  assumes "\<forall>ad\<in>set ads. m (h ad) p = Inr (g ad)" "idx + length ads \<le> length out"
  shows "batch_loop m h p ads idx out
           = Inr (take idx out @ map g ads @ drop (idx + length ads) out)"
  using assms
proof (induction ads arbitrary: idx out)
  case Nil
  then show ?case by simp
next
  case (Cons ad ads)
  have lt: "idx < length out" using Cons.prems(2) by simp
  have hd: "m (h ad) p = Inr (g ad)" using Cons.prems(1) by simp
  have tl: "\<forall>ad\<in>set ads. m (h ad) p = Inr (g ad)" using Cons.prems(1) by simp
  have len: "Suc idx + length ads \<le> length (out[idx := g ad])" using Cons.prems(2) by simp
  have tk: "take (Suc idx) (out[idx := g ad]) = take idx out @ [g ad]"
    using lt by (simp add: take_Suc_conv_app_nth)
  have dr: "drop (Suc idx + length ads) (out[idx := g ad]) = drop (idx + length (ad # ads)) out"
    by simp
  show ?case
    using Cons.IH[OF tl len] lt hd tk dr by simp
qed

lemma batch_all:
  assumes "\<forall>ad\<in>set (map snd kvs). m (h ad) p = Inr (g ad)"
  shows "batch_loop m h p (map snd kvs) 0 (replicate (length kvs) z) = Inr (map g (map snd kvs))"
  using batch_loop_map[where m = m and h = h and p = p and g = g and ads = "map snd kvs"
      and idx = 0 and out = "replicate (length kvs) z"] assms
  by simp

lemma obstacle_returns:
  assumes "derives_Obstacle2DBase ob"
  shows "\<exists>v u1 u2 u3. obj_f ob (Vec q) = Inr v \<and> obj_dx ob (Vec q) = Inr u1
           \<and> obj_dy ob (Vec q) = Inr u2 \<and> obj_dtheta ob (Vec q) = Inr u3
           \<and> obj_gradient ob (Vec q) = Inr [u1, u2, u3]"
proof (cases ob)
  case (EllipseObj e)
  obtain u v where "Ellipse2D_dx e (Vec q) = Inr u" "Ellipse2D_dy e (Vec q) = Inr v"
    using dx_returns dy_returns by blast
  then show ?thesis using EllipseObj
    by (simp add: Ellipse2D_f_def Ellipse2D_evaluate_def Let_def Ellipse2D_gradient_def
        Obstacle2DBase_gradient_def Ellipse2D_dtheta_def Obstacle2DBase_dtheta_def)
next
  case BaseObj
  then show ?thesis
    by (simp add: Obstacle2DBase_f_def Obstacle2DBase_dx_def Obstacle2DBase_dy_def
        Obstacle2DBase_dtheta_def Obstacle2DBase_gradient_def)
next
  case ForeignObj
  then show ?thesis using assms by simp
qed

lemma obstacle_projr:
  assumes "derives_Obstacle2DBase ob"
  shows "obj_f ob (Vec q) = Inr (projr (obj_f ob (Vec q)))"
    and "obj_dx ob (Vec q) = Inr (projr (obj_dx ob (Vec q)))"
    and "obj_dy ob (Vec q) = Inr (projr (obj_dy ob (Vec q)))"
    and "obj_dtheta ob (Vec q) = Inr (projr (obj_dtheta ob (Vec q)))"
    and "obj_gradient ob (Vec q) = Inr [projr (obj_dx ob (Vec q)), projr (obj_dy ob (Vec q)),
                                        projr (obj_dtheta ob (Vec q))]"
proof -
  obtain v u1 u2 u3 where "obj_f ob (Vec q) = Inr v" "obj_dx ob (Vec q) = Inr u1"
     "obj_dy ob (Vec q) = Inr u2" "obj_dtheta ob (Vec q) = Inr u3"
     "obj_gradient ob (Vec q) = Inr [u1, u2, u3]"
    using obstacle_returns[OF assms, of q] by blast
  then show "obj_f ob (Vec q) = Inr (projr (obj_f ob (Vec q)))"
    and "obj_dx ob (Vec q) = Inr (projr (obj_dx ob (Vec q)))"
    and "obj_dy ob (Vec q) = Inr (projr (obj_dy ob (Vec q)))"
    and "obj_dtheta ob (Vec q) = Inr (projr (obj_dtheta ob (Vec q)))"
    and "obj_gradient ob (Vec q) = Inr [projr (obj_dx ob (Vec q)), projr (obj_dy ob (Vec q)),
                                        projr (obj_dtheta ob (Vec q))]"
    by simp_all
qed

section \<open>The claims\<close>

subsection \<open>C1: the reconciliation scenario\<close>

text \<open>
  C1. Starting from a collection with the keys 1 and 2 and an observation mapping with the
  keys 2 and 3, the claim says that \<^verbatim>\<open>updateByBoundingBox\<close> completes with key 1
  removed, key 2 updated in place, key 3 newly built and inserted. The code does not
  complete the call. In the module as written, building the obstacle for key 3 raises
  \<^verbatim>\<open>NameError\<close> (the name \<^verbatim>\<open>carla\<close> is not bound): key 2 has been updated at its old
  address, key 3 is missing and key 1 is still there. With the name bound, the first loop
  finishes (key 2 updated at address 1, key 3 allocated at the fresh address 2), and the
  second loop pops key 1 from the dict it is iterating, so its next step raises
  \<^verbatim>\<open>RuntimeError\<close>.
\<close>

theorem C1_reconcile_scenario_raises:
  "updateByBoundingBox carla_imported (Some [(2, bbox2), (3, bbox3)]) ELLIPSE2D (1/2) scene
     = (Some NameError,
        \<lparr>heap = (\<lambda>ad. ForeignObj)
                  (0 := EllipseObj tracked1,
                   1 := EllipseObj \<lparr>center = \<lparr>x = 6, y = 5\<rparr>, theta = 0, a = 2, b = 1,
                                      buffer = 1/2, BUFFER_FLAG = True\<rparr>),
          next_addr = 2, mapping = [(1, 0), (2, 1)]\<rparr>)
   \<and> updateByBoundingBox True (Some [(2, bbox2), (3, bbox3)]) ELLIPSE2D (1/2) scene
     = (Some RuntimeError,
        \<lparr>heap = (\<lambda>ad. ForeignObj)
                  (0 := EllipseObj tracked1,
                   1 := EllipseObj \<lparr>center = \<lparr>x = 6, y = 5\<rparr>, theta = 0, a = 2, b = 1,
                                      buffer = 1/2, BUFFER_FLAG = True\<rparr>,
                   2 := EllipseObj \<lparr>center = \<lparr>x = 9, y = 9\<rparr>, theta = 0, a = 3/2, b = 3/2,
                                      buffer = 1/2, BUFFER_FLAG = True\<rparr>),
          next_addr = 3, mapping = [(2, 1), (3, 2)]\<rparr>)"
  by (simp add: updateByBoundingBox_def carla_imported_def scene_def ELLIPSE2D_def
      fromBoundingBox_def Ellipse2D_updateByBoundingBox_def Ellipse2D_update_def tracked2_def
      bbox2_def bbox3_def Ellipse2D_init_def setitem_def pop_def getitem_def delitem_def)

subsection \<open>C2: batch evaluation\<close>

text \<open>
  C2. For a collection whose \<open>n\<close> values are obstacles and a query point that is a
  \<^verbatim>\<open>Vector2\<close>, each of the batch methods \<^verbatim>\<open>f\<close>, \<^verbatim>\<open>dx\<close>, \<^verbatim>\<open>dy\<close>, \<^verbatim>\<open>dtheta\<close> returns
  a vector of length \<open>n\<close> whose \<open>i\<close>-th entry is what the method of the \<open>i\<close>-th obstacle
  in iteration order returns, and \<^verbatim>\<open>gradient\<close> returns \<open>n\<close> rows, row \<open>i\<close> being
  \<open>[dx_i, dy_i, dtheta_i]\<close>, the gradient of the \<open>i\<close>-th obstacle.
\<close>

theorem C2_batch_rows_match_obstacles:
  assumes "\<forall>ad\<in>set (map snd (mapping s)). derives_Obstacle2DBase (heap s ad)"
  shows "\<exists>fs dxs dys dts g.
           ObstacleList2D_f s (Vec q) = Inr fs \<and> ObstacleList2D_dx s (Vec q) = Inr dxs
         \<and> ObstacleList2D_dy s (Vec q) = Inr dys \<and> ObstacleList2D_dtheta s (Vec q) = Inr dts
         \<and> ObstacleList2D_gradient s (Vec q) = Inr g
         \<and> length fs = length (mapping s) \<and> length dxs = length (mapping s)
         \<and> length dys = length (mapping s) \<and> length dts = length (mapping s)
         \<and> length g = length (mapping s)
         \<and> (\<forall>i<length (mapping s).
               obj_f (heap s (snd (mapping s ! i))) (Vec q) = Inr (fs ! i)
             \<and> obj_dx (heap s (snd (mapping s ! i))) (Vec q) = Inr (dxs ! i)
             \<and> obj_dy (heap s (snd (mapping s ! i))) (Vec q) = Inr (dys ! i)
             \<and> obj_dtheta (heap s (snd (mapping s ! i))) (Vec q) = Inr (dts ! i)
             \<and> obj_gradient (heap s (snd (mapping s ! i))) (Vec q) = Inr (g ! i)
             \<and> g ! i = [dxs ! i, dys ! i, dts ! i])"
proof -
  let ?ads = "map snd (mapping s)"
  define gf where "gf = (\<lambda>ad. projr (obj_f (heap s ad) (Vec q)))"
  define gx where "gx = (\<lambda>ad. projr (obj_dx (heap s ad) (Vec q)))"
  define gy where "gy = (\<lambda>ad. projr (obj_dy (heap s ad) (Vec q)))"
  define gt where "gt = (\<lambda>ad. projr (obj_dtheta (heap s ad) (Vec q)))"
  define gg where "gg = (\<lambda>ad. [gx ad, gy ad, gt ad])"
  have pf: "\<forall>ad\<in>set ?ads. obj_f (heap s ad) (Vec q) = Inr (gf ad)"
    unfolding gf_def using assms obstacle_projr(1) by blast
  have px: "\<forall>ad\<in>set ?ads. obj_dx (heap s ad) (Vec q) = Inr (gx ad)"
    unfolding gx_def using assms obstacle_projr(2) by blast
  have py: "\<forall>ad\<in>set ?ads. obj_dy (heap s ad) (Vec q) = Inr (gy ad)"
    unfolding gy_def using assms obstacle_projr(3) by blast
  have pt: "\<forall>ad\<in>set ?ads. obj_dtheta (heap s ad) (Vec q) = Inr (gt ad)"
    unfolding gt_def using assms obstacle_projr(4) by blast
  have pg: "\<forall>ad\<in>set ?ads. obj_gradient (heap s ad) (Vec q) = Inr (gg ad)"
    unfolding gg_def gx_def gy_def gt_def using assms obstacle_projr(5) by blast
  have mem: "snd (mapping s ! i) \<in> set ?ads" if "i < length (mapping s)" for i
    using that by (simp add: image_iff) (metis nth_mem)
  have rf: "ObstacleList2D_f s (Vec q) = Inr (map gf ?ads)"
    unfolding ObstacleList2D_f_def
    using batch_all[where m = obj_f and h = "heap s" and p = "Vec q" and g = gf
        and kvs = "mapping s"] pf by simp
  have rx: "ObstacleList2D_dx s (Vec q) = Inr (map gx ?ads)"
    unfolding ObstacleList2D_dx_def
    using batch_all[where m = obj_dx and h = "heap s" and p = "Vec q" and g = gx
        and kvs = "mapping s"] px by simp
  have ry: "ObstacleList2D_dy s (Vec q) = Inr (map gy ?ads)"
    unfolding ObstacleList2D_dy_def
    using batch_all[where m = obj_dy and h = "heap s" and p = "Vec q" and g = gy
        and kvs = "mapping s"] py by simp
  have rt: "ObstacleList2D_dtheta s (Vec q) = Inr (map gt ?ads)"
    unfolding ObstacleList2D_dtheta_def
    using batch_all[where m = obj_dtheta and h = "heap s" and p = "Vec q" and g = gt
        and kvs = "mapping s"] pt by simp
  have rg: "ObstacleList2D_gradient s (Vec q) = Inr (map gg ?ads)"
    unfolding ObstacleList2D_gradient_def
    using batch_all[where m = obj_gradient and h = "heap s" and p = "Vec q" and g = gg
        and kvs = "mapping s"] pg by simp
  have rows: "obj_f (heap s (snd (mapping s ! i))) (Vec q) = Inr (map gf ?ads ! i)
             \<and> obj_dx (heap s (snd (mapping s ! i))) (Vec q) = Inr (map gx ?ads ! i)
             \<and> obj_dy (heap s (snd (mapping s ! i))) (Vec q) = Inr (map gy ?ads ! i)
             \<and> obj_dtheta (heap s (snd (mapping s ! i))) (Vec q) = Inr (map gt ?ads ! i)
             \<and> obj_gradient (heap s (snd (mapping s ! i))) (Vec q) = Inr (map gg ?ads ! i)
             \<and> map gg ?ads ! i = [map gx ?ads ! i, map gy ?ads ! i, map gt ?ads ! i]"
    if "i < length (mapping s)" for i
    using that pf px py pt pg mem[OF that] by (simp add: gg_def)
  show ?thesis
    apply (rule exI[of _ "map gf ?ads"])
    apply (rule exI[of _ "map gx ?ads"])
    apply (rule exI[of _ "map gy ?ads"])
    apply (rule exI[of _ "map gt ?ads"])
    apply (rule exI[of _ "map gg ?ads"])
    using rf rx ry rt rg rows by simp
qed

text \<open>
  The theorem at the two-obstacle collection \<open>scene\<close> and the query point (1, 0): both
  values are obstacles, so the hypothesis holds there, and the vectors have length 2.
\<close>

theorem C2_batch_rows_match_obstacles_witness:
  "map snd (mapping scene) = [0, 1]
   \<and> derives_Obstacle2DBase (heap scene 0) \<and> derives_Obstacle2DBase (heap scene 1)
   \<and> (\<exists>fs g. ObstacleList2D_f scene (Vec \<lparr>x = 1, y = 0\<rparr>) = Inr fs
            \<and> ObstacleList2D_gradient scene (Vec \<lparr>x = 1, y = 0\<rparr>) = Inr g
            \<and> length fs = 2 \<and> length g = 2
            \<and> obj_f (heap scene 0) (Vec \<lparr>x = 1, y = 0\<rparr>) = Inr (fs ! 0)
            \<and> obj_gradient (heap scene 1) (Vec \<lparr>x = 1, y = 0\<rparr>) = Inr (g ! 1))"
proof -
  have h: "\<forall>ad\<in>set (map snd (mapping scene)). derives_Obstacle2DBase (heap scene ad)"
    by (simp add: scene_def)
  have m: "mapping scene = [(1, 0), (2, 1)]"
    by (simp add: scene_def)
  obtain fs dxs dys dts g where
    r: "ObstacleList2D_f scene (Vec \<lparr>x = 1, y = 0\<rparr>) = Inr fs"
       "ObstacleList2D_gradient scene (Vec \<lparr>x = 1, y = 0\<rparr>) = Inr g"
       "length fs = length (mapping scene)" "length g = length (mapping scene)"
    and rows: "\<forall>i<length (mapping scene).
               obj_f (heap scene (snd (mapping scene ! i))) (Vec \<lparr>x = 1, y = 0\<rparr>) = Inr (fs ! i)
             \<and> obj_dx (heap scene (snd (mapping scene ! i))) (Vec \<lparr>x = 1, y = 0\<rparr>) = Inr (dxs ! i)
             \<and> obj_dy (heap scene (snd (mapping scene ! i))) (Vec \<lparr>x = 1, y = 0\<rparr>) = Inr (dys ! i)
             \<and> obj_dtheta (heap scene (snd (mapping scene ! i))) (Vec \<lparr>x = 1, y = 0\<rparr>)
                 = Inr (dts ! i)
             \<and> obj_gradient (heap scene (snd (mapping scene ! i))) (Vec \<lparr>x = 1, y = 0\<rparr>)
                 = Inr (g ! i)
             \<and> g ! i = [dxs ! i, dys ! i, dts ! i]"
    using C2_batch_rows_match_obstacles[OF h, of "\<lparr>x = 1, y = 0\<rparr>"] by blast
  have r0: "obj_f (heap scene 0) (Vec \<lparr>x = 1, y = 0\<rparr>) = Inr (fs ! 0)"
    using rows[rule_format, of 0] by (simp add: m)
  have r1: "obj_gradient (heap scene 1) (Vec \<lparr>x = 1, y = 0\<rparr>) = Inr (g ! 1)"
    using rows[rule_format, of 1] by (simp add: m)
  have d: "derives_Obstacle2DBase (heap scene 0)" "derives_Obstacle2DBase (heap scene 1)"
    by (simp_all add: scene_def)
  show ?thesis
    using d r r0 r1 by (simp add: m)
qed

subsection \<open>C3: the barrier value\<close>

text \<open>
  C3, as stated: for every \<^verbatim>\<open>Ellipse2D\<close> and every point, \<^verbatim>\<open>evaluate\<close> and \<^verbatim>\<open>f\<close>
  return the number \<open>((dx ct + dy st)/a)^2 + ((- dx st + dy ct)/b)^2 - 1\<close>, negative
  inside, zero on the boundary, positive outside. \<^verbatim>\<open>Ellipse2D(0, 1)\<close> is built without
  complaint, and at the point (1, 0) the first quotient divides by the zero semi-axis:
  both methods return a non-finite value, which is no real number and has no sign. The
  constructor call is the one that gives \<open>flat_ellipse\<close>.
\<close>

theorem C3_zero_semi_axis_not_finite:
  "Ellipse2D_init 0 1 (Vec \<lparr>x = 0, y = 0\<rparr>) 0 0 = Inr flat_ellipse
   \<and> Ellipse2D_evaluate flat_ellipse (Vec \<lparr>x = 1, y = 0\<rparr>) = Inr NonFinite
   \<and> Ellipse2D_f flat_ellipse (Vec \<lparr>x = 1, y = 0\<rparr>) = Inr NonFinite"
  by (simp add: Ellipse2D_init_def flat_ellipse_def Ellipse2D_evaluate_def Ellipse2D_f_def)

text \<open>
  C3, amended. For an ellipse with non-zero semi-axes and a point \<open>p\<close>, \<^verbatim>\<open>evaluate(p)\<close>
  returns \<open>((dx ct + dy st)/a)^2 + ((- dx st + dy ct)/b)^2 - 1\<close> with
  \<open>dx = p.x - center.x\<close>, \<open>dy = p.y - center.y\<close>, \<open>ct = cos theta\<close>, \<open>st = sin theta\<close>,
  and \<^verbatim>\<open>f\<close> returns what \<^verbatim>\<open>evaluate\<close> returns, on every argument. At the point of
  scale \<open>r \<ge> 0\<close> in the frame of the ellipse the value is \<open>r^2 - 1\<close>: negative strictly
  inside (\<open>r < 1\<close>), zero on the boundary (\<open>r = 1\<close>), positive strictly outside
  (\<open>r > 1\<close>).
\<close>

theorem C3_evaluate_formula_and_sign:
  assumes "a e \<noteq> 0" "b e \<noteq> 0"
  shows "Ellipse2D_evaluate e (Vec p) =
           Inr (Finite ((((x p - x (center e)) * cos (theta e)
                           + (y p - y (center e)) * sin (theta e)) / a e)\<^sup>2
                        + ((- (x p - x (center e)) * sin (theta e)
                            + (y p - y (center e)) * cos (theta e)) / b e)\<^sup>2 - 1))
       \<and> Ellipse2D_f e w = Ellipse2D_evaluate e w
       \<and> Ellipse2D_f e (Vec (ellipse_point e r phi)) = Inr (Finite (r\<^sup>2 - 1))
       \<and> (0 \<le> r \<and> r < 1 \<longrightarrow> finite_value (Ellipse2D_f e (Vec (ellipse_point e r phi))) < 0)
       \<and> (r = 1 \<longrightarrow> finite_value (Ellipse2D_f e (Vec (ellipse_point e r phi))) = 0)
       \<and> (1 < r \<longrightarrow> 0 < finite_value (Ellipse2D_f e (Vec (ellipse_point e r phi))))"
proof -
  have v: "Ellipse2D_f e (Vec (ellipse_point e r phi)) = Inr (Finite (r\<^sup>2 - 1))"
    unfolding Ellipse2D_f_def by (rule ellipse_point_value[OF assms])
  have al: "Ellipse2D_f e w = Ellipse2D_evaluate e w"
    by (simp add: Ellipse2D_f_def)
  have neg: "0 \<le> r \<and> r < 1 \<longrightarrow> finite_value (Ellipse2D_f e (Vec (ellipse_point e r phi))) < 0"
    unfolding v using sq_lt1[of r] by simp
  have zero: "r = 1 \<longrightarrow> finite_value (Ellipse2D_f e (Vec (ellipse_point e r phi))) = 0"
    unfolding v by simp
  have pos: "1 < r \<longrightarrow> 0 < finite_value (Ellipse2D_f e (Vec (ellipse_point e r phi)))"
    unfolding v using sq_gt1[of r] by simp
  show ?thesis
    using evaluate_formula[OF assms, of p] al v neg zero pos by blast
qed

text \<open>
  The theorem at the unit circle: the point of scale 1/2 at angle 0 has the value
  \<open>- 3/4\<close>, negative.
\<close>

theorem C3_evaluate_formula_and_sign_witness:
  "a unit_circle \<noteq> 0 \<and> b unit_circle \<noteq> 0 \<and> (0::real) \<le> 1/2 \<and> (1/2::real) < 1
   \<and> Ellipse2D_f unit_circle (Vec (ellipse_point unit_circle (1/2) 0)) = Inr (Finite (- 3/4))
   \<and> finite_value (Ellipse2D_f unit_circle (Vec (ellipse_point unit_circle (1/2) 0))) < 0"
proof -
  have h: "a unit_circle \<noteq> 0" "b unit_circle \<noteq> 0"
    by (simp_all add: unit_circle_def)
  have sq: "((1/2::real))\<^sup>2 - 1 = - 3/4"
    by (simp add: power2_eq_square)
  have t: "Ellipse2D_f unit_circle (Vec (ellipse_point unit_circle (1/2) 0))
             = Inr (Finite ((1/2)\<^sup>2 - 1))"
   and n: "(0::real) \<le> 1/2 \<and> (1/2::real) < 1 \<longrightarrow>
             finite_value (Ellipse2D_f unit_circle (Vec (ellipse_point unit_circle (1/2) 0))) < 0"
    using C3_evaluate_formula_and_sign[OF h, where p = "\<lparr>x = 0, y = 0\<rparr>" and w = NotVec
        and r = "1/2" and phi = 0]
    by blast+
  have t': "Ellipse2D_f unit_circle (Vec (ellipse_point unit_circle (1/2) 0))
             = Inr (Finite (- 3/4))"
    using t unfolding sq .
  show ?thesis
    using h t' n by simp
qed

subsection \<open>C4: the partial derivatives\<close>

text \<open>
  C4, as stated: \<^verbatim>\<open>dx(p)\<close> and \<^verbatim>\<open>dy(p)\<close> are the partial derivatives of \<open>f\<close> with
  respect to \<^verbatim>\<open>center.x\<close> and \<^verbatim>\<open>center.y\<close>. For the unit circle at the origin and the
  point (1, 0), \<^verbatim>\<open>dx\<close> returns 2, whereas the value as a function of \<^verbatim>\<open>center.x\<close> is
  \<open>(1 - t)^2 - 1\<close>, of derivative \<open>- 2\<close> at 0: \<^verbatim>\<open>dx(p)\<close> is not that derivative.
\<close>

theorem C4_dx_is_not_center_partial:
  "\<not> (f_along_center_x unit_circle \<lparr>x = 1, y = 0\<rparr> has_real_derivative
        finite_value (Ellipse2D_dx unit_circle (Vec \<lparr>x = 1, y = 0\<rparr>)))
       (at (x (center unit_circle)))"
proof
  let ?p = "\<lparr>x = 1, y = 0\<rparr>"
  assume h: "(f_along_center_x unit_circle ?p has_real_derivative
       finite_value (Ellipse2D_dx unit_circle (Vec ?p))) (at (x (center unit_circle)))"
  have ab: "a unit_circle \<noteq> 0" "b unit_circle \<noteq> 0"
    by (simp_all add: unit_circle_def)
  have "finite_value (Ellipse2D_dx unit_circle (Vec ?p))
      = - finite_value (Ellipse2D_dx unit_circle (Vec ?p))"
    using DERIV_unique[OF h f_center_x_deriv[OF ab]] .
  moreover have "finite_value (Ellipse2D_dx unit_circle (Vec ?p)) = 2"
    by (simp add: Ellipse2D_dx_def Obstacle2DBase_dx_def unit_circle_def Let_def)
  ultimately show False by simp
qed

text \<open>
  C4, amended. For an ellipse with non-zero semi-axes and a point \<open>p\<close>, \<^verbatim>\<open>dx(p)\<close>
  returns \<open>(2 ct/a^2) (xd ct + yd st) + (- 2 st/b^2) (- xd st + yd ct)\<close> and \<^verbatim>\<open>dy(p)\<close>
  returns \<open>(2 st/a^2) (xd ct + yd st) + (2 ct/b^2) (- xd st + yd ct)\<close>, with
  \<open>xd = p.x - center.x\<close>, \<open>yd = p.y - center.y\<close>. These are the partial derivatives of
  \<open>f\<close> with respect to the query point's \<^verbatim>\<open>p.x\<close> and \<^verbatim>\<open>p.y\<close>; the partial derivatives
  with respect to \<^verbatim>\<open>center.x\<close> and \<^verbatim>\<open>center.y\<close> are their negatives.
\<close>

theorem C4_dx_dy_are_point_partials:
  assumes "a e \<noteq> 0" "b e \<noteq> 0"
  shows "Ellipse2D_dx e (Vec p) =
           Inr (Finite ((2 * cos (theta e) / (a e)\<^sup>2)
                          * ((x p - x (center e)) * cos (theta e)
                             + (y p - y (center e)) * sin (theta e))
                        + (- 2 * sin (theta e) / (b e)\<^sup>2)
                          * (- (x p - x (center e)) * sin (theta e)
                             + (y p - y (center e)) * cos (theta e))))
       \<and> Ellipse2D_dy e (Vec p) =
           Inr (Finite ((2 * sin (theta e) / (a e)\<^sup>2)
                          * ((x p - x (center e)) * cos (theta e)
                             + (y p - y (center e)) * sin (theta e))
                        + (2 * cos (theta e) / (b e)\<^sup>2)
                          * (- (x p - x (center e)) * sin (theta e)
                             + (y p - y (center e)) * cos (theta e))))
       \<and> (f_along_point_x e p has_real_derivative finite_value (Ellipse2D_dx e (Vec p)))
           (at (x p))
       \<and> (f_along_point_y e p has_real_derivative finite_value (Ellipse2D_dy e (Vec p)))
           (at (y p))
       \<and> (f_along_center_x e p has_real_derivative - finite_value (Ellipse2D_dx e (Vec p)))
           (at (x (center e)))
       \<and> (f_along_center_y e p has_real_derivative - finite_value (Ellipse2D_dy e (Vec p)))
           (at (y (center e)))"
  using dx_formula[OF assms, of p] dy_formula[OF assms, of p]
    f_point_x_deriv[OF assms, of p] f_point_y_deriv[OF assms, of p]
    f_center_x_deriv[OF assms, of p] f_center_y_deriv[OF assms, of p]
  by blast

text \<open>
  The theorem at the unit circle and the point (1, 0): \<^verbatim>\<open>dx\<close> returns 2, the derivative
  of the value in \<^verbatim>\<open>p.x\<close>, and the derivative in \<^verbatim>\<open>center.x\<close> is \<open>- 2\<close>.
\<close>

theorem C4_dx_dy_are_point_partials_witness:
  "a unit_circle \<noteq> 0 \<and> b unit_circle \<noteq> 0
   \<and> Ellipse2D_dx unit_circle (Vec \<lparr>x = 1, y = 0\<rparr>) = Inr (Finite 2)
   \<and> (f_along_point_x unit_circle \<lparr>x = 1, y = 0\<rparr> has_real_derivative 2) (at 1)
   \<and> (f_along_center_x unit_circle \<lparr>x = 1, y = 0\<rparr> has_real_derivative - 2) (at 0)"
proof -
  have h: "a unit_circle \<noteq> 0" "b unit_circle \<noteq> 0"
    by (simp_all add: unit_circle_def)
  have v: "Ellipse2D_dx unit_circle (Vec \<lparr>x = 1, y = 0\<rparr>) = Inr (Finite 2)"
    by (simp add: Ellipse2D_dx_def Obstacle2DBase_dx_def unit_circle_def Let_def)
  have c: "x (center unit_circle) = 0"
    by (simp add: unit_circle_def)
  show ?thesis
    using h C4_dx_dy_are_point_partials[OF h, of "\<lparr>x = 1, y = 0\<rparr>"]
    unfolding v c by simp
qed

subsection \<open>C5: the buffer after an update from a bounding box\<close>

text \<open>
  C5. The claim says that, while \<^verbatim>\<open>BUFFER_FLAG\<close> is set, the stored semi-axes include the
  buffer exactly once, after construction and after every operation, \<^verbatim>\<open>updateByBoundingBox\<close>
  included. The ellipse \<open>tracked1\<close> is what both the constructor with semi-axes 1 and buffer
  1/2 and \<^verbatim>\<open>fromBoundingBox\<close> with the box of extent 1 and buffer 1/2 return: semi-axes
  3/2. \<^verbatim>\<open>updateByBoundingBox\<close> with the same box stores the bare extent 1 and leaves the
  flag set and the buffer at 1/2, so the buffer is no longer included; \<^verbatim>\<open>removeBuffer\<close>
  then gives semi-axes 1/2, below the measured extent.
\<close>

theorem C5_bounding_box_update_drops_buffer:
  "Ellipse2D_init 1 1 (Vec \<lparr>x = 0, y = 0\<rparr>) 0 (1/2) = Inr tracked1
   \<and> fromBoundingBox True bbox_unit (1/2) = Inr tracked1
   \<and> removeBuffer tracked1 = ([], tracked1\<lparr>a := 1, b := 1, BUFFER_FLAG := False\<rparr>)
   \<and> Ellipse2D_updateByBoundingBox bbox_unit tracked1 = (None, tracked1\<lparr>a := 1, b := 1\<rparr>)
   \<and> BUFFER_FLAG (tracked1\<lparr>a := 1, b := 1\<rparr>)
   \<and> buffer (tracked1\<lparr>a := 1, b := 1\<rparr>) = 1/2
   \<and> removeBuffer (tracked1\<lparr>a := 1, b := 1\<rparr>)
       = ([], tracked1\<lparr>a := 1/2, b := 1/2, BUFFER_FLAG := False\<rparr>)"
  by (simp add: Ellipse2D_init_def fromBoundingBox_def bbox_unit_def tracked1_def
      removeBuffer_def Ellipse2D_updateByBoundingBox_def Ellipse2D_update_def)

subsection \<open>C6: update with a new buffer only\<close>

text \<open>
  C6. \<^verbatim>\<open>update(buffer=v)\<close> with no other argument raises nothing. When the buffer is
  applied, \<^verbatim>\<open>a\<close> and \<^verbatim>\<open>b\<close> become \<open>a - old + v\<close> and \<open>b - old + v\<close> and the stored
  buffer becomes \<open>v\<close>, so the semi-axes less the buffer are unchanged; when it is not
  applied, only the stored buffer changes. Center, rotation and flag are untouched.
\<close>

theorem C6_update_buffer_only:
  "Ellipse2D_update None None None None (Some v) e =
     (None,
      if BUFFER_FLAG e
      then e\<lparr>a := a e - buffer e + v, b := b e - buffer e + v, buffer := v\<rparr>
      else e\<lparr>buffer := v\<rparr>)
   \<and> buffer (snd (Ellipse2D_update None None None None (Some v) e)) = v
   \<and> center (snd (Ellipse2D_update None None None None (Some v) e)) = center e
   \<and> theta (snd (Ellipse2D_update None None None None (Some v) e)) = theta e
   \<and> BUFFER_FLAG (snd (Ellipse2D_update None None None None (Some v) e)) = BUFFER_FLAG e
   \<and> (if BUFFER_FLAG e
       then a (snd (Ellipse2D_update None None None None (Some v) e)) - v = a e - buffer e
          \<and> b (snd (Ellipse2D_update None None None None (Some v) e)) - v = b e - buffer e
       else a (snd (Ellipse2D_update None None None None (Some v) e)) = a e
          \<and> b (snd (Ellipse2D_update None None None None (Some v) e)) = b e)"
  by (simp add: Ellipse2D_update_def Let_def)

text \<open>
  The theorem at \<open>tracked1\<close> (semi-axes 3/2, buffer 1/2, applied) and the new buffer 1:
  the semi-axes become 2.
\<close>

theorem C6_update_buffer_only_witness:
  "BUFFER_FLAG tracked1
   \<and> Ellipse2D_update None None None None (Some 1) tracked1
       = (None, tracked1\<lparr>a := 2, b := 2, buffer := 1\<rparr>)"
proof -
  have h: "BUFFER_FLAG tracked1"
    by (simp add: tracked1_def)
  have ab: "a tracked1 - buffer tracked1 + 1 = 2" "b tracked1 - buffer tracked1 + 1 = 2"
    by (simp_all add: tracked1_def)
  show ?thesis
    using h C6_update_buffer_only[of 1 tracked1] unfolding ab by simp
qed

subsection \<open>C7: the derivative in the rotation\<close>

text \<open>
  C7. For every ellipse and every point \<open>p\<close>, \<^verbatim>\<open>dtheta(p)\<close> returns 0, and
  \<^verbatim>\<open>gradient(p)\<close> returns \<open>[dx(p), dy(p), 0]\<close>: its third entry is 0.
\<close>

theorem C7_dtheta_zero:
  "Ellipse2D_dtheta e (Vec p) = Inr (Finite 0)
   \<and> (\<exists>u v. Ellipse2D_dx e (Vec p) = Inr u \<and> Ellipse2D_dy e (Vec p) = Inr v
          \<and> Ellipse2D_gradient e (Vec p) = Inr [u, v, Finite 0])"
proof -
  obtain u v where "Ellipse2D_dx e (Vec p) = Inr u" "Ellipse2D_dy e (Vec p) = Inr v"
    using dx_returns dy_returns by blast
  then show ?thesis
    by (simp add: Ellipse2D_dtheta_def Obstacle2DBase_dtheta_def Ellipse2D_gradient_def
        Obstacle2DBase_gradient_def)
qed

text \<open>The theorem at the unit circle and the point (1, 0): the gradient is \<open>[2, 0, 0]\<close>.\<close>

theorem C7_dtheta_zero_witness:
  "Ellipse2D_dtheta unit_circle (Vec \<lparr>x = 1, y = 0\<rparr>) = Inr (Finite 0)
   \<and> Ellipse2D_gradient unit_circle (Vec \<lparr>x = 1, y = 0\<rparr>) = Inr [Finite 2, Finite 0, Finite 0]"
proof -
  have u: "Ellipse2D_dx unit_circle (Vec \<lparr>x = 1, y = 0\<rparr>) = Inr (Finite 2)"
    by (simp add: Ellipse2D_dx_def Obstacle2DBase_dx_def unit_circle_def Let_def)
  have v: "Ellipse2D_dy unit_circle (Vec \<lparr>x = 1, y = 0\<rparr>) = Inr (Finite 0)"
    by (simp add: Ellipse2D_dy_def Obstacle2DBase_dy_def unit_circle_def Let_def)
  show ?thesis
    using C7_dtheta_zero[of unit_circle "\<lparr>x = 1, y = 0\<rparr>"] unfolding u v by simp
qed

subsection \<open>C8: redundant buffer toggles\<close>

text \<open>
  C8. \<^verbatim>\<open>applyBuffer\<close> on an ellipse whose buffer is applied, and \<^verbatim>\<open>removeBuffer\<close> on one
  whose buffer is removed, raise nothing, leave the object as it is (\<^verbatim>\<open>a\<close>, \<^verbatim>\<open>b\<close>,
  \<^verbatim>\<open>buffer\<close>, \<^verbatim>\<open>BUFFER_FLAG\<close> and the rest) and hand one warning to \<^verbatim>\<open>warnings.warn\<close>.
  So the second of two \<^verbatim>\<open>applyBuffer\<close> calls in a row changes nothing and warns, and so
  does the second of two \<^verbatim>\<open>removeBuffer\<close> calls.
\<close>

theorem C8_redundant_toggle_noop:
  "(BUFFER_FLAG e \<longrightarrow>
      applyBuffer e = ([''Warning: Buffer already applied. Call Ignored.''], e))
   \<and> (\<not> BUFFER_FLAG e \<longrightarrow>
      removeBuffer e = ([''Warning: Buffer already removed. Call Ignored.''], e))
   \<and> applyBuffer (snd (applyBuffer e))
       = ([''Warning: Buffer already applied. Call Ignored.''], snd (applyBuffer e))
   \<and> removeBuffer (snd (removeBuffer e))
       = ([''Warning: Buffer already removed. Call Ignored.''], snd (removeBuffer e))"
  by (simp add: applyBuffer_def removeBuffer_def)

text \<open>
  The theorem at \<open>tracked1\<close>, whose buffer is applied, and at \<open>tracked1\<close> after
  \<^verbatim>\<open>removeBuffer\<close>, whose buffer is removed.
\<close>

theorem C8_redundant_toggle_noop_witness:
  "BUFFER_FLAG tracked1
   \<and> applyBuffer tracked1 = ([''Warning: Buffer already applied. Call Ignored.''], tracked1)
   \<and> \<not> BUFFER_FLAG (snd (removeBuffer tracked1))
   \<and> removeBuffer (snd (removeBuffer tracked1))
       = ([''Warning: Buffer already removed. Call Ignored.''], snd (removeBuffer tracked1))"
proof -
  have h1: "BUFFER_FLAG tracked1"
    by (simp add: tracked1_def)
  have h2: "\<not> BUFFER_FLAG (snd (removeBuffer tracked1))"
    by (simp add: tracked1_def removeBuffer_def)
  show ?thesis
    using h1 h2 C8_redundant_toggle_noop[of tracked1]
      C8_redundant_toggle_noop[of "snd (removeBuffer tracked1)"]
    by blast
qed

subsection \<open>C9: the type check of insertion\<close>

text \<open>
  C9. \<^verbatim>\<open>__setitem__(key, value)\<close> with a value whose class does not derive from
  \<^verbatim>\<open>Obstacle2DBase\<close> raises \<^verbatim>\<open>TypeError\<close> and leaves the whole state, the collection
  included, as it was. With a value that derives from it the call raises nothing, the key
  then maps to the value, every other key maps to what it mapped to before, and no object
  is changed.
\<close>

theorem C9_setitem_type_check:
  "(\<not> derives_Obstacle2DBase (heap s val) \<longrightarrow> setitem key val s = (Some TypeError, s))
   \<and> (derives_Obstacle2DBase (heap s val) \<longrightarrow>
        fst (setitem key val s) = None
      \<and> getitem key (snd (setitem key val s)) = Inr val
      \<and> (\<forall>k'. k' \<noteq> key \<longrightarrow> getitem k' (snd (setitem key val s)) = getitem k' s)
      \<and> heap (snd (setitem key val s)) = heap s)"
  by (simp add: setitem_def getitem_def dict_set_lookup)

text \<open>
  The theorem at \<open>scene\<close>: address 7 holds no obstacle, so storing it under key 3 raises
  and changes nothing; address 0 holds an ellipse, so storing it under key 3 succeeds and
  key 1 keeps its value.
\<close>

theorem C9_setitem_type_check_witness:
  "\<not> derives_Obstacle2DBase (heap scene 7)
   \<and> setitem 3 7 scene = (Some TypeError, scene)
   \<and> derives_Obstacle2DBase (heap scene 0)
   \<and> fst (setitem 3 0 scene) = None
   \<and> getitem 3 (snd (setitem 3 0 scene)) = Inr 0
   \<and> getitem 1 (snd (setitem 3 0 scene)) = getitem 1 scene"
proof -
  have h1: "\<not> derives_Obstacle2DBase (heap scene 7)"
    by (simp add: scene_def)
  have h2: "derives_Obstacle2DBase (heap scene 0)"
    by (simp add: scene_def)
  have ne: "(1::int) \<noteq> 3"
    by simp
  show ?thesis
    using h1 h2 ne C9_setitem_type_check[of scene 7 3] C9_setitem_type_check[of scene 0 3]
    by blast
qed

subsection \<open>C10: no observation mapping\<close>

text \<open>
  A call with \<^verbatim>\<open>obs_dict = None\<close> raises nothing and leaves the whole state unchanged,
  whatever the collection, the obstacle type and the buffer are.
\<close>

lemma none_leaves_state:
  "updateByBoundingBox carla None obs_type buf s = (None, s)"
  by (simp add: updateByBoundingBox_def)

text \<open>
  C10. The claim says that a call with \<^verbatim>\<open>obs_dict = None\<close> leaves the collection
  unchanged, unlike a call with an empty observation mapping, whose removal step would
  delete every obstacle. On the two-obstacle collection \<open>scene\<close> the call with \<^verbatim>\<open>None\<close>
  does leave the state as it is. The call with an empty mapping does not delete every
  obstacle: the removal loop pops key 1 from the dict it is iterating, its next step raises
  \<^verbatim>\<open>RuntimeError\<close>, and key 2 stays in the collection.
\<close>

theorem C10_empty_mapping_raises_after_first_pop:
  "updateByBoundingBox carla_imported None ELLIPSE2D (1/2) scene = (None, scene)
   \<and> updateByBoundingBox carla_imported (Some []) ELLIPSE2D (1/2) scene
       = (Some RuntimeError, scene\<lparr>mapping := [(2, 1)]\<rparr>)"
  by (simp add: updateByBoundingBox_def scene_def pop_def getitem_def delitem_def)

end
